theory Spec2Isabelle
  imports Main "HOL-Library.Word"
begin

section \<open>The OpenGL ES debug-logging bridge (opengl\_debug\_jni.cpp)\<close>

text \<open>
  The translation unit holds two functions: the debug callback \<open>gl_debug_cb\<close> and the JNI
  entry point that registers it. Both are straight-line code whose whole behaviour is the
  calls they make into the platform (GL ES with KHR\_debug, and the Android log). The
  embedding therefore has two layers: each function of the source yields, in program order,
  the platform calls it makes, and \<open>perform\<close> gives each platform call its effect on the
  state of the world outside the program.
\<close>

subsection \<open>Platform types and constants\<close>

text \<open>
  \<open>GLenum\<close> and \<open>GLuint\<close> are \<open>unsigned int\<close>, \<open>GLsizei\<close> is \<open>int\<close> (a 32-bit word read
  with \<open>sint\<close>); pointers (\<open>JNIEnv*\<close>, \<open>jobject\<close>, \<open>const void*\<close>) are 64-bit addresses and
  \<open>nullptr\<close> is address 0. A \<open>const GLchar*\<close> is modelled by the characters stored at the
  address.
\<close>

type_synonym GLenum = "32 word"
type_synonym GLuint = "32 word"
type_synonym GLsizei = "32 word"
type_synonym addr = "64 word"

definition nullptr :: addr where
  "nullptr = 0"

text \<open>The enumerants the program names, with their values in the Khronos headers
  (GLES2/gl2.h, GLES2/gl2ext.h), and the other KHR\_debug message types.\<close>

definition GL_DEBUG_TYPE_ERROR_KHR :: GLenum where
  "GL_DEBUG_TYPE_ERROR_KHR = 0x824C"

definition GL_DEBUG_OUTPUT_KHR :: GLenum where
  "GL_DEBUG_OUTPUT_KHR = 0x92E0"

definition GL_DEBUG_TYPE_DEPRECATED_BEHAVIOR_KHR :: GLenum where
  "GL_DEBUG_TYPE_DEPRECATED_BEHAVIOR_KHR = 0x824D"

definition GL_DEBUG_TYPE_UNDEFINED_BEHAVIOR_KHR :: GLenum where
  "GL_DEBUG_TYPE_UNDEFINED_BEHAVIOR_KHR = 0x824E"

definition GL_DEBUG_TYPE_PORTABILITY_KHR :: GLenum where
  "GL_DEBUG_TYPE_PORTABILITY_KHR = 0x824F"

definition GL_DEBUG_TYPE_PERFORMANCE_KHR :: GLenum where
  "GL_DEBUG_TYPE_PERFORMANCE_KHR = 0x8250"

definition GL_DEBUG_TYPE_OTHER_KHR :: GLenum where
  "GL_DEBUG_TYPE_OTHER_KHR = 0x8251"

definition GL_DEBUG_TYPE_MARKER_KHR :: GLenum where
  "GL_DEBUG_TYPE_MARKER_KHR = 0x8268"

definition GL_NO_ERROR :: GLenum where
  "GL_NO_ERROR = 0"

definition GL_INVALID_ENUM :: GLenum where
  "GL_INVALID_ENUM = 0x0500"

text \<open>The priorities of android/log.h, in the order of the enum.\<close>

datatype android_LogPriority =
    ANDROID_LOG_UNKNOWN
  | ANDROID_LOG_DEFAULT
  | ANDROID_LOG_VERBOSE
  | ANDROID_LOG_DEBUG
  | ANDROID_LOG_INFO
  | ANDROID_LOG_WARN
  | ANDROID_LOG_ERROR
  | ANDROID_LOG_FATAL
  | ANDROID_LOG_SILENT

text \<open>
  A value of type \<open>GLDEBUGPROCKHR\<close> is the address of a function. The only function of this
  program whose address is taken is \<open>gl_debug_cb\<close>; any other address belongs to code
  outside the program. The null function pointer is \<open>None\<close>.
\<close>

datatype GLDEBUGPROCKHR = Fn_gl_debug_cb | Fn_foreign addr

subsection \<open>Platform calls\<close>

text \<open>The three platform functions the source calls, with the arguments of the call.
  \<open>android_log_print\<close> stands for \<open>__android_log_print\<close>: priority, tag, format string and
  the variadic arguments.\<close>

datatype api_call =
    glDebugMessageCallbackKHR "GLDEBUGPROCKHR option" addr
  | glEnable GLenum
  | android_log_print android_LogPriority string string "string list"

subsection \<open>The state of the platform\<close>

record log_entry =
  log_prio :: android_LogPriority
  log_tag :: string
  log_text :: string

text \<open>
  The current GL context: the capabilities \<open>glEnable\<close> accepts on it (KHR\_debug is present
  exactly when \<open>GL_DEBUG_OUTPUT_KHR\<close> is among them), the capabilities that are enabled, the
  recorded error code, the debug-callback slot (function and user parameter), and all the
  remaining GL state as one opaque component.
\<close>

record 'g gl_context =
  capabilities :: "GLenum set"
  enabled :: "GLenum set"
  error_flag :: GLenum
  debug_callback_function :: "GLDEBUGPROCKHR option"
  debug_callback_user_param :: addr
  gl_other :: 'g

text \<open>
  The world outside the program: the GL context, the log sink (the entries received, oldest
  first) and the exception pending in the calling JNI environment, if any.
\<close>

record 'g world =
  gl :: "'g gl_context"
  logcat :: "log_entry list"
  pending_exception :: "addr option"

definition has_KHR_debug :: "'g world \<Rightarrow> bool" where
  "has_KHR_debug w = (GL_DEBUG_OUTPUT_KHR \<in> capabilities (gl w))"

subsection \<open>Formatting\<close>

text \<open>
  \<open>%s\<close> prints the characters of its argument up to the terminating NUL. \<open>c_format\<close> is
  \<open>printf\<close> restricted to the conversions \<open>%s\<close> and \<open>%%\<close>, which cover the program's only
  format string.
\<close>

definition c_str :: "string \<Rightarrow> string" where
  "c_str s = takeWhile (\<lambda>c. c \<noteq> CHR 0x00) s"

fun c_format :: "string \<Rightarrow> string list \<Rightarrow> string" where
  "c_format [] args = []"
| "c_format [c] args = [c]"
| "c_format (c # d # fmt) args =
     (if c = CHR ''%'' \<and> d = CHR ''s'' then
        (case args of
           [] \<Rightarrow> c_format fmt []
         | a # rest \<Rightarrow> c_str a @ c_format fmt rest)
      else if c = CHR ''%'' \<and> d = CHR ''%'' then CHR ''%'' # c_format fmt args
      else c # c_format (d # fmt) args)"

subsection \<open>The effect of a platform call\<close>

text \<open>
  \<^item> \<open>glDebugMessageCallbackKHR\<close> stores the function and the user parameter in the slot
    of a context with KHR\_debug, and is ignored on a context without it.
  \<^item> \<open>glEnable\<close> enables a capability the context accepts; for any other enumerant the
    command is ignored apart from recording \<open>GL_INVALID_ENUM\<close>, which happens only when no
    error is recorded yet.
  \<^item> \<open>__android_log_print\<close> hands the log sink one entry: the priority, the tag and the
    expanded format string, in full (a limit the logger puts on the length of a line lies
    behind the sink).
\<close>

fun perform :: "api_call \<Rightarrow> 'g world \<Rightarrow> 'g world" where
  "perform (glDebugMessageCallbackKHR callback userParam) w =
     (if has_KHR_debug w
      then w\<lparr>gl := (gl w)\<lparr>debug_callback_function := callback,
                           debug_callback_user_param := userParam\<rparr>\<rparr>
      else w)"
| "perform (glEnable cap) w =
     (if cap \<in> capabilities (gl w)
      then w\<lparr>gl := (gl w)\<lparr>enabled := insert cap (enabled (gl w))\<rparr>\<rparr>
      else if error_flag (gl w) = GL_NO_ERROR
      then w\<lparr>gl := (gl w)\<lparr>error_flag := GL_INVALID_ENUM\<rparr>\<rparr>
      else w)"
| "perform (android_log_print prio tag fmt args) w =
     w\<lparr>logcat := logcat w @
        [\<lparr>log_prio = prio, log_tag = tag, log_text = c_format fmt args\<rparr>]\<rparr>"

definition run :: "api_call list \<Rightarrow> 'g world \<Rightarrow> 'g world" where
  "run calls w = fold perform calls w"

subsection \<open>The program\<close>

definition LOG_TAG :: string where
  "LOG_TAG = ''OpenGLDebugLib''"

definition gl_debug_cb ::
  "GLenum \<Rightarrow> GLenum \<Rightarrow> GLuint \<Rightarrow> GLenum \<Rightarrow> GLsizei \<Rightarrow> string \<Rightarrow> addr \<Rightarrow> api_call list" where
  "gl_debug_cb source type id' severity length' message userParam =
     (if type = GL_DEBUG_TYPE_ERROR_KHR
      then [android_log_print ANDROID_LOG_ERROR LOG_TAG ''GL ERROR:\<newline> %s.'' [message]]
      else [])"

definition Java_com_google_jetpackcamera_core_camera_effects_GLDebug_enableES3DebugErrorLogging ::
  "addr \<Rightarrow> addr \<Rightarrow> api_call list" where
  "Java_com_google_jetpackcamera_core_camera_effects_GLDebug_enableES3DebugErrorLogging env clazz =
     [glDebugMessageCallbackKHR (Some Fn_gl_debug_cb) nullptr,
      glEnable GL_DEBUG_OUTPUT_KHR]"

subsection \<open>The program in its environment\<close>

text \<open>
  The two ways control enters the program: the managed caller invokes the entry point, or the
  GL driver invokes the callback. A history is a list of such events, oldest first.
\<close>

datatype event =
    Call_enableES3DebugErrorLogging addr addr
  | Call_gl_debug_cb GLenum GLenum GLuint GLenum GLsizei string addr

fun calls_of :: "event \<Rightarrow> api_call list" where
  "calls_of (Call_enableES3DebugErrorLogging env clazz) =
     Java_com_google_jetpackcamera_core_camera_effects_GLDebug_enableES3DebugErrorLogging env clazz"
| "calls_of (Call_gl_debug_cb source type id' severity length' message userParam) =
     gl_debug_cb source type id' severity length' message userParam"

definition step :: "event \<Rightarrow> 'g world \<Rightarrow> 'g world" where
  "step e w = run (calls_of e) w"

definition run_events :: "event list \<Rightarrow> 'g world \<Rightarrow> 'g world" where
  "run_events es w = fold step es w"

text \<open>
  A debug message of the driver, and its delivery under KHR\_debug: while debug output is
  enabled, the function in the slot is called with the message and the registered user
  parameter. The result is the calls this program makes in response, which are none when the
  slot is empty or holds a function of other code.
\<close>

record debug_message =
  dm_source :: GLenum
  dm_type :: GLenum
  dm_id :: GLuint
  dm_severity :: GLenum
  dm_length :: GLsizei
  dm_message :: string

definition driver_deliver :: "debug_message \<Rightarrow> 'g world \<Rightarrow> api_call list" where
  "driver_deliver m w =
     (if GL_DEBUG_OUTPUT_KHR \<in> enabled (gl w) then
        (case debug_callback_function (gl w) of
           None \<Rightarrow> []
         | Some Fn_gl_debug_cb \<Rightarrow>
             gl_debug_cb (dm_source m) (dm_type m) (dm_id m) (dm_severity m) (dm_length m)
               (dm_message m) (debug_callback_user_param (gl w))
         | Some (Fn_foreign a) \<Rightarrow> [])
      else [])"

text \<open>Two contexts used as test data: one with KHR\_debug and one without, both in their
  initial state (nothing enabled, no error recorded, empty slot), with an empty log.\<close>

definition debug_capable_world :: "unit world" where
  "debug_capable_world =
     \<lparr>gl = \<lparr>capabilities = {GL_DEBUG_OUTPUT_KHR}, enabled = {}, error_flag = GL_NO_ERROR,
            debug_callback_function = None, debug_callback_user_param = nullptr,
            gl_other = ()\<rparr>,
      logcat = [], pending_exception = None\<rparr>"

definition plain_world :: "unit world" where
  "plain_world =
     \<lparr>gl = \<lparr>capabilities = {}, enabled = {}, error_flag = GL_NO_ERROR,
            debug_callback_function = None, debug_callback_user_param = nullptr,
            gl_other = ()\<rparr>,
      logcat = [], pending_exception = None\<rparr>"

abbreviation (input) enable_ev :: "addr \<Rightarrow> addr \<Rightarrow> event" where
  "enable_ev \<equiv> Call_enableES3DebugErrorLogging"

section \<open>Basic facts about running the program\<close>

subsection \<open>Sequencing\<close>

lemma run_Nil: "run [] w = w"
  by (simp add: run_def)

lemma run_Cons: "run (c # cs) w = run cs (perform c w)"
  by (simp add: run_def)

lemma run_events_Nil: "run_events [] w = w"
  by (simp add: run_events_def)

lemma run_events_Cons: "run_events (e # es) w = run_events es (step e w)"
  by (simp add: run_events_def)

subsection \<open>One run of the callback\<close>

lemma run_gl_debug_cb:
  "run (gl_debug_cb source type id' severity length' message userParam) w =
     (if type = GL_DEBUG_TYPE_ERROR_KHR
      then w\<lparr>logcat := logcat w @
             [\<lparr>log_prio = ANDROID_LOG_ERROR, log_tag = ''OpenGLDebugLib'',
               log_text = ''GL ERROR:\<newline> '' @ c_str message @ ''.''\<rparr>]\<rparr>
      else w)"
  by (simp add: gl_debug_cb_def run_Cons run_Nil LOG_TAG_def)

lemma step_gl_debug_cb:
  "step (Call_gl_debug_cb source type id' severity length' message userParam) w =
     (if type = GL_DEBUG_TYPE_ERROR_KHR
      then w\<lparr>logcat := logcat w @
             [\<lparr>log_prio = ANDROID_LOG_ERROR, log_tag = ''OpenGLDebugLib'',
               log_text = ''GL ERROR:\<newline> '' @ c_str message @ ''.''\<rparr>]\<rparr>
      else w)"
  by (simp add: step_def run_gl_debug_cb)

lemma repeated_error_callbacks:
  "logcat (run_events (replicate n
       (Call_gl_debug_cb source GL_DEBUG_TYPE_ERROR_KHR id' severity length' message userParam)) w) =
   logcat w @ replicate n
     \<lparr>log_prio = ANDROID_LOG_ERROR, log_tag = ''OpenGLDebugLib'',
      log_text = ''GL ERROR:\<newline> '' @ c_str message @ ''.''\<rparr>"
proof (induction n arbitrary: w)
  case 0
  show ?case by (simp add: run_events_Nil)
next
  case (Suc n)
  show ?case
    by (simp add: run_events_Cons Suc.IH step_gl_debug_cb replicate_app_Cons_same)
qed

subsection \<open>One run of the entry point\<close>

text \<open>
  On a context with KHR\_debug the two calls fill the slot and enable debug output. On a
  context without it the registration is ignored and \<open>glEnable\<close> is refused, which leaves
  \<open>GL_INVALID_ENUM\<close> in the error flag unless an earlier error is still recorded there.
\<close>

lemma run_enable_with_KHR_debug:
  "has_KHR_debug w \<Longrightarrow>
   run (Java_com_google_jetpackcamera_core_camera_effects_GLDebug_enableES3DebugErrorLogging env clazz) w =
     w\<lparr>gl := (gl w)\<lparr>enabled := insert GL_DEBUG_OUTPUT_KHR (enabled (gl w)),
                     debug_callback_function := Some Fn_gl_debug_cb,
                     debug_callback_user_param := nullptr\<rparr>\<rparr>"
  by (simp add: Java_com_google_jetpackcamera_core_camera_effects_GLDebug_enableES3DebugErrorLogging_def
      run_Cons run_Nil has_KHR_debug_def)

lemma run_enable_without_KHR_debug:
  "\<not> has_KHR_debug w \<Longrightarrow>
   run (Java_com_google_jetpackcamera_core_camera_effects_GLDebug_enableES3DebugErrorLogging env clazz) w =
     w\<lparr>gl := (gl w)\<lparr>error_flag :=
        (if error_flag (gl w) = GL_NO_ERROR then GL_INVALID_ENUM else error_flag (gl w))\<rparr>\<rparr>"
  by (simp add: Java_com_google_jetpackcamera_core_camera_effects_GLDebug_enableES3DebugErrorLogging_def
      run_Cons run_Nil has_KHR_debug_def)

lemma step_enable_with_KHR_debug:
  "has_KHR_debug w \<Longrightarrow>
   step (enable_ev env clazz) w =
     w\<lparr>gl := (gl w)\<lparr>enabled := insert GL_DEBUG_OUTPUT_KHR (enabled (gl w)),
                     debug_callback_function := Some Fn_gl_debug_cb,
                     debug_callback_user_param := nullptr\<rparr>\<rparr>"
  by (simp add: step_def run_enable_with_KHR_debug)

lemma step_enable_without_KHR_debug:
  "\<not> has_KHR_debug w \<Longrightarrow>
   step (enable_ev env clazz) w =
     w\<lparr>gl := (gl w)\<lparr>error_flag :=
        (if error_flag (gl w) = GL_NO_ERROR then GL_INVALID_ENUM else error_flag (gl w))\<rparr>\<rparr>"
  by (simp add: step_def run_enable_without_KHR_debug)

lemma step_enable_logcat: "logcat (step (enable_ev env clazz) w) = logcat w"
  by (cases "has_KHR_debug w")
    (simp_all add: step_enable_with_KHR_debug step_enable_without_KHR_debug)

lemma step_enable_pending:
  "pending_exception (step (enable_ev env clazz) w) = pending_exception w"
  by (cases "has_KHR_debug w")
    (simp_all add: step_enable_with_KHR_debug step_enable_without_KHR_debug)

lemma step_capabilities: "capabilities (gl (step e w)) = capabilities (gl w)"
proof (cases e)
  case (Call_enableES3DebugErrorLogging env clazz)
  then show ?thesis
    by (cases "has_KHR_debug w")
      (simp_all add: step_enable_with_KHR_debug step_enable_without_KHR_debug)
next
  case (Call_gl_debug_cb source type id' severity length' message userParam)
  then show ?thesis by (simp add: step_gl_debug_cb)
qed

lemma step_has_KHR_debug: "has_KHR_debug (step e w) = has_KHR_debug w"
  by (simp add: has_KHR_debug_def step_capabilities)

subsection \<open>The slot along a history\<close>

lemma step_keeps_gl_debug_cb:
  "debug_callback_function (gl w) = Some Fn_gl_debug_cb \<Longrightarrow>
   debug_callback_function (gl (step e w)) = Some Fn_gl_debug_cb"
proof (cases e)
  case (Call_enableES3DebugErrorLogging env clazz)
  assume "debug_callback_function (gl w) = Some Fn_gl_debug_cb"
  with Call_enableES3DebugErrorLogging show ?thesis
    by (cases "has_KHR_debug w")
      (simp_all add: step_enable_with_KHR_debug step_enable_without_KHR_debug)
next
  case (Call_gl_debug_cb source type id' severity length' message userParam)
  assume "debug_callback_function (gl w) = Some Fn_gl_debug_cb"
  with Call_gl_debug_cb show ?thesis by (simp add: step_gl_debug_cb)
qed

lemma step_keeps_slot_occupied:
  "debug_callback_function (gl w) \<noteq> None \<Longrightarrow>
   debug_callback_function (gl (step e w)) \<noteq> None"
proof (cases e)
  case (Call_enableES3DebugErrorLogging env clazz)
  assume "debug_callback_function (gl w) \<noteq> None"
  with Call_enableES3DebugErrorLogging show ?thesis
    by (cases "has_KHR_debug w")
      (simp_all add: step_enable_with_KHR_debug step_enable_without_KHR_debug)
next
  case (Call_gl_debug_cb source type id' severity length' message userParam)
  assume "debug_callback_function (gl w) \<noteq> None"
  with Call_gl_debug_cb show ?thesis by (simp add: step_gl_debug_cb)
qed

lemma run_events_keeps_gl_debug_cb:
  "debug_callback_function (gl w) = Some Fn_gl_debug_cb \<Longrightarrow>
   debug_callback_function (gl (run_events es w)) = Some Fn_gl_debug_cb"
proof (induction es arbitrary: w)
  case Nil
  then show ?case by (simp add: run_events_Nil)
next
  case (Cons e es)
  from Cons.prems have "debug_callback_function (gl (step e w)) = Some Fn_gl_debug_cb"
    by (rule step_keeps_gl_debug_cb)
  then show ?case by (simp add: run_events_Cons Cons.IH)
qed

lemma run_events_keeps_slot_occupied:
  "debug_callback_function (gl w) \<noteq> None \<Longrightarrow>
   debug_callback_function (gl (run_events es w)) \<noteq> None"
proof (induction es arbitrary: w)
  case Nil
  then show ?case by (simp add: run_events_Nil)
next
  case (Cons e es)
  from Cons.prems have "debug_callback_function (gl (step e w)) \<noteq> None"
    by (rule step_keeps_slot_occupied)
  then show ?case by (simp add: run_events_Cons Cons.IH)
qed

section \<open>The callback\<close>

text \<open>
  C1. Every invocation of \<open>gl_debug_cb\<close>, from any state of the world: when the type is
  \<open>GL_DEBUG_TYPE_ERROR_KHR\<close> the log sink receives exactly one more entry, under the fixed tag
  and carrying the message text; for any other type it receives nothing. Nothing is batched,
  rate-limited or deduplicated: \<open>n\<close> identical error invocations in a row leave \<open>n\<close>
  identical entries.
\<close>

theorem gl_debug_cb_filter:
  "(type = GL_DEBUG_TYPE_ERROR_KHR \<longrightarrow>
      logcat (run (gl_debug_cb source type id' severity length' message userParam) w) =
        logcat w @ [\<lparr>log_prio = ANDROID_LOG_ERROR, log_tag = LOG_TAG,
                     log_text = ''GL ERROR:\<newline> '' @ c_str message @ ''.''\<rparr>]) \<and>
   (type \<noteq> GL_DEBUG_TYPE_ERROR_KHR \<longrightarrow>
      logcat (run (gl_debug_cb source type id' severity length' message userParam) w) =
        logcat w) \<and>
   logcat (run_events (replicate n
       (Call_gl_debug_cb source GL_DEBUG_TYPE_ERROR_KHR id' severity length' message userParam)) w) =
     logcat w @ replicate n
       \<lparr>log_prio = ANDROID_LOG_ERROR, log_tag = LOG_TAG,
        log_text = ''GL ERROR:\<newline> '' @ c_str message @ ''.''\<rparr>"
  by (simp add: run_gl_debug_cb repeated_error_callbacks LOG_TAG_def)

theorem gl_debug_cb_filter_witness:
  "logcat (run (gl_debug_cb 0x8246 GL_DEBUG_TYPE_ERROR_KHR 7 0x9146 3 ''bad'' nullptr)
     debug_capable_world) =
     [\<lparr>log_prio = ANDROID_LOG_ERROR, log_tag = ''OpenGLDebugLib'',
       log_text = ''GL ERROR:\<newline> bad.''\<rparr>] \<and>
   logcat (run (gl_debug_cb 0x8246 GL_DEBUG_TYPE_PERFORMANCE_KHR 7 0x9146 3 ''bad'' nullptr)
     debug_capable_world) = [] \<and>
   logcat (run_events (replicate 2
       (Call_gl_debug_cb 0x8246 GL_DEBUG_TYPE_ERROR_KHR 7 0x9146 3 ''bad'' nullptr))
     debug_capable_world) =
     [\<lparr>log_prio = ANDROID_LOG_ERROR, log_tag = ''OpenGLDebugLib'',
       log_text = ''GL ERROR:\<newline> bad.''\<rparr>,
      \<lparr>log_prio = ANDROID_LOG_ERROR, log_tag = ''OpenGLDebugLib'',
       log_text = ''GL ERROR:\<newline> bad.''\<rparr>]"
proof -
  have ne: "GL_DEBUG_TYPE_PERFORMANCE_KHR \<noteq> GL_DEBUG_TYPE_ERROR_KHR"
    by (simp add: GL_DEBUG_TYPE_PERFORMANCE_KHR_def GL_DEBUG_TYPE_ERROR_KHR_def)
  have bad: "c_str ''bad'' = ''bad''"
    by (simp add: c_str_def)
  have empty: "logcat debug_capable_world = []"
    by (simp add: debug_capable_world_def)
  show ?thesis
    using ne gl_debug_cb_filter [where type = GL_DEBUG_TYPE_ERROR_KHR and source = "0x8246"
        and id' = 7 and severity = "0x9146" and length' = 3 and message = "''bad''"
        and userParam = nullptr and w = debug_capable_world and n = 2]
      gl_debug_cb_filter [where type = GL_DEBUG_TYPE_PERFORMANCE_KHR and source = "0x8246"
        and id' = 7 and severity = "0x9146" and length' = 3 and message = "''bad''"
        and userParam = nullptr and w = debug_capable_world and n = 0]
    by (simp add: bad empty LOG_TAG_def numeral_2_eq_2)
qed

text \<open>
  C7. What the callback does depends on the message type and the message string only. Two
  invocations that agree on these and differ in source, id, severity, length or user
  parameter make the same platform calls and so lead from any world to the same world; the
  severity in particular plays no part.
\<close>

theorem gl_debug_cb_depends_on_type_and_message:
  "gl_debug_cb source1 type id1 severity1 length1 message userParam1 =
     gl_debug_cb source2 type id2 severity2 length2 message userParam2 \<and>
   run (gl_debug_cb source1 type id1 severity1 length1 message userParam1) w =
     run (gl_debug_cb source2 type id2 severity2 length2 message userParam2) w \<and>
   step (Call_gl_debug_cb source1 type id1 severity1 length1 message userParam1) w =
     step (Call_gl_debug_cb source2 type id2 severity2 length2 message userParam2) w"
  by (simp add: gl_debug_cb_def step_def)

theorem gl_debug_cb_depends_on_type_and_message_witness:
  "run (gl_debug_cb 0x8246 GL_DEBUG_TYPE_ERROR_KHR 1 0x9146 3 ''bad'' nullptr)
     debug_capable_world =
   run (gl_debug_cb 0x824A GL_DEBUG_TYPE_ERROR_KHR 99 0x9148 0 ''bad'' 0x10)
     debug_capable_world"
  using gl_debug_cb_depends_on_type_and_message [where w = debug_capable_world
      and type = GL_DEBUG_TYPE_ERROR_KHR and message = "''bad''"
      and ?source1.0 = "0x8246" and ?id1.0 = 1 and ?severity1.0 = "0x9146" and ?length1.0 = 3
      and ?userParam1.0 = nullptr
      and ?source2.0 = "0x824A" and ?id2.0 = 99 and ?severity2.0 = "0x9148" and ?length2.0 = 0
      and ?userParam2.0 = "0x10"]
  by simp

text \<open>
  C10. The callback leaves the GL state as it found it, whatever its seven arguments: the
  debug-callback slot (function and user parameter) and the enabled capabilities, the
  debug-output flag among them, are the same after the call as before. The pending
  exception is untouched too, and the world after the call is the world before it with
  entries appended to the log sink.
\<close>

theorem gl_debug_cb_frame:
  "gl (step (Call_gl_debug_cb source type id' severity length' message userParam) w) = gl w \<and>
   debug_callback_function
     (gl (step (Call_gl_debug_cb source type id' severity length' message userParam) w)) =
     debug_callback_function (gl w) \<and>
   debug_callback_user_param
     (gl (step (Call_gl_debug_cb source type id' severity length' message userParam) w)) =
     debug_callback_user_param (gl w) \<and>
   enabled (gl (step (Call_gl_debug_cb source type id' severity length' message userParam) w)) =
     enabled (gl w) \<and>
   pending_exception (step (Call_gl_debug_cb source type id' severity length' message userParam) w) =
     pending_exception w \<and>
   (\<exists>new. step (Call_gl_debug_cb source type id' severity length' message userParam) w =
      w\<lparr>logcat := logcat w @ new\<rparr>)"
proof -
  have "\<exists>new. step (Call_gl_debug_cb source type id' severity length' message userParam) w =
      w\<lparr>logcat := logcat w @ new\<rparr>"
  proof (cases "type = GL_DEBUG_TYPE_ERROR_KHR")
    case True
    then have "step (Call_gl_debug_cb source type id' severity length' message userParam) w =
      w\<lparr>logcat := logcat w @
         [\<lparr>log_prio = ANDROID_LOG_ERROR, log_tag = ''OpenGLDebugLib'',
           log_text = ''GL ERROR:\<newline> '' @ c_str message @ ''.''\<rparr>]\<rparr>"
      by (simp add: step_gl_debug_cb)
    then show ?thesis by blast
  next
    case False
    then have "step (Call_gl_debug_cb source type id' severity length' message userParam) w =
      w\<lparr>logcat := logcat w @ []\<rparr>"
      by (simp add: step_gl_debug_cb)
    then show ?thesis by blast
  qed
  then show ?thesis by (simp add: step_gl_debug_cb)
qed

theorem gl_debug_cb_frame_witness:
  "gl (step (Call_gl_debug_cb 0x8246 GL_DEBUG_TYPE_ERROR_KHR 1 0x9146 3 ''bad'' nullptr)
        debug_capable_world) = gl debug_capable_world \<and>
   pending_exception (step (Call_gl_debug_cb 0x8246 GL_DEBUG_TYPE_ERROR_KHR 1 0x9146 3 ''bad''
        nullptr) debug_capable_world) = None"
  using gl_debug_cb_frame [where w = debug_capable_world and type = GL_DEBUG_TYPE_ERROR_KHR
      and source = "0x8246" and id' = 1 and severity = "0x9146" and length' = 3
      and message = "''bad''" and userParam = nullptr]
  by (simp add: debug_capable_world_def)

section \<open>The entry point\<close>

text \<open>
  C3. Every invocation of the entry point makes exactly two platform calls, in this order:
  it registers \<open>gl_debug_cb\<close> with a null user parameter, then enables
  \<open>GL_DEBUG_OUTPUT_KHR\<close>. On a context with KHR\_debug the slot then holds the callback
  and the null user parameter, and debug output is enabled. The function is \<open>void\<close>: it
  yields no value, raises no exception (the caller's pending exception is as it was) and
  writes nothing to the log.
\<close>

theorem enableES3DebugErrorLogging_steps:
  "Java_com_google_jetpackcamera_core_camera_effects_GLDebug_enableES3DebugErrorLogging env clazz =
     [glDebugMessageCallbackKHR (Some Fn_gl_debug_cb) nullptr, glEnable GL_DEBUG_OUTPUT_KHR] \<and>
   step (enable_ev env clazz) w =
     perform (glEnable GL_DEBUG_OUTPUT_KHR)
       (perform (glDebugMessageCallbackKHR (Some Fn_gl_debug_cb) nullptr) w) \<and>
   (has_KHR_debug w \<longrightarrow>
      debug_callback_function (gl (step (enable_ev env clazz) w)) = Some Fn_gl_debug_cb \<and>
      debug_callback_user_param (gl (step (enable_ev env clazz) w)) = nullptr \<and>
      GL_DEBUG_OUTPUT_KHR \<in> enabled (gl (step (enable_ev env clazz) w))) \<and>
   pending_exception (step (enable_ev env clazz) w) = pending_exception w \<and>
   logcat (step (enable_ev env clazz) w) = logcat w"
proof -
  have "step (enable_ev env clazz) w =
     perform (glEnable GL_DEBUG_OUTPUT_KHR)
       (perform (glDebugMessageCallbackKHR (Some Fn_gl_debug_cb) nullptr) w)"
    by (simp add: step_def run_Cons run_Nil
        Java_com_google_jetpackcamera_core_camera_effects_GLDebug_enableES3DebugErrorLogging_def)
  moreover have "has_KHR_debug w \<longrightarrow>
      debug_callback_function (gl (step (enable_ev env clazz) w)) = Some Fn_gl_debug_cb \<and>
      debug_callback_user_param (gl (step (enable_ev env clazz) w)) = nullptr \<and>
      GL_DEBUG_OUTPUT_KHR \<in> enabled (gl (step (enable_ev env clazz) w))"
    by (simp add: step_enable_with_KHR_debug)
  ultimately show ?thesis
    by (simp add: step_enable_logcat step_enable_pending
        Java_com_google_jetpackcamera_core_camera_effects_GLDebug_enableES3DebugErrorLogging_def)
qed

theorem enableES3DebugErrorLogging_steps_witness:
  "debug_callback_function (gl (step (enable_ev nullptr nullptr) debug_capable_world)) =
     Some Fn_gl_debug_cb \<and>
   debug_callback_user_param (gl (step (enable_ev nullptr nullptr) debug_capable_world)) = 0 \<and>
   enabled (gl (step (enable_ev nullptr nullptr) debug_capable_world)) = {0x92E0}"
proof -
  have "has_KHR_debug debug_capable_world"
    by (simp add: has_KHR_debug_def debug_capable_world_def)
  then show ?thesis
    using enableES3DebugErrorLogging_steps [where w = debug_capable_world and env = nullptr
        and clazz = nullptr]
    by (simp add: debug_capable_world_def nullptr_def GL_DEBUG_OUTPUT_KHR_def has_KHR_debug_def)
qed

text \<open>
  C4, as stated: the entry point changes no GL state other than the debug-callback slot.
  This fails. On a fresh context with KHR\_debug the GL state after the call differs from
  the state before it even when the slot is put back, because \<open>glEnable\<close> has switched
  debug output on; on a fresh context without KHR\_debug it differs because the refused
  \<open>glEnable\<close> has recorded \<open>GL_INVALID_ENUM\<close>.
\<close>

theorem frame_outside_slot_counterexample:
  "(gl (step (enable_ev nullptr nullptr) debug_capable_world))
      \<lparr>debug_callback_function := debug_callback_function (gl debug_capable_world),
       debug_callback_user_param := debug_callback_user_param (gl debug_capable_world)\<rparr>
     \<noteq> gl debug_capable_world \<and>
   (gl (step (enable_ev nullptr nullptr) plain_world))
      \<lparr>debug_callback_function := debug_callback_function (gl plain_world),
       debug_callback_user_param := debug_callback_user_param (gl plain_world)\<rparr>
     \<noteq> gl plain_world"
proof -
  have a: "has_KHR_debug debug_capable_world"
    by (simp add: has_KHR_debug_def debug_capable_world_def)
  have b: "\<not> has_KHR_debug plain_world"
    by (simp add: has_KHR_debug_def plain_world_def)
  have c: "GL_INVALID_ENUM \<noteq> GL_NO_ERROR"
    by (simp add: GL_INVALID_ENUM_def GL_NO_ERROR_def)
  show ?thesis
    using c by (simp add: step_enable_with_KHR_debug [OF a] step_enable_without_KHR_debug [OF b])
      (simp add: debug_capable_world_def plain_world_def)
qed

text \<open>
  C4, amended. The entry point changes nothing outside the debug-callback slot (function and
  user parameter) and the debug-output enable flag; on a context without KHR\_debug it
  changes nothing but the GL error flag, where \<open>GL_INVALID_ENUM\<close> is recorded if no error
  was recorded before. Every other component of the world (the rest of the GL state, the
  log sink, the pending exception) is as it was.
\<close>

theorem enableES3DebugErrorLogging_frame:
  "(has_KHR_debug w \<longrightarrow>
      step (enable_ev env clazz) w =
        w\<lparr>gl := (gl w)\<lparr>enabled := insert GL_DEBUG_OUTPUT_KHR (enabled (gl w)),
                        debug_callback_function := Some Fn_gl_debug_cb,
                        debug_callback_user_param := nullptr\<rparr>\<rparr>) \<and>
   (\<not> has_KHR_debug w \<longrightarrow>
      step (enable_ev env clazz) w =
        w\<lparr>gl := (gl w)\<lparr>error_flag :=
           (if error_flag (gl w) = GL_NO_ERROR then GL_INVALID_ENUM
            else error_flag (gl w))\<rparr>\<rparr>)"
  by (simp add: step_enable_with_KHR_debug step_enable_without_KHR_debug)

theorem enableES3DebugErrorLogging_frame_witness:
  "step (enable_ev nullptr nullptr) debug_capable_world =
     \<lparr>gl = \<lparr>capabilities = {GL_DEBUG_OUTPUT_KHR}, enabled = {GL_DEBUG_OUTPUT_KHR},
            error_flag = GL_NO_ERROR, debug_callback_function = Some Fn_gl_debug_cb,
            debug_callback_user_param = nullptr, gl_other = ()\<rparr>,
      logcat = [], pending_exception = None\<rparr> \<and>
   step (enable_ev nullptr nullptr) plain_world =
     \<lparr>gl = \<lparr>capabilities = {}, enabled = {}, error_flag = GL_INVALID_ENUM,
            debug_callback_function = None, debug_callback_user_param = nullptr,
            gl_other = ()\<rparr>,
      logcat = [], pending_exception = None\<rparr>"
proof -
  have a: "has_KHR_debug debug_capable_world"
    by (simp add: has_KHR_debug_def debug_capable_world_def)
  have b: "\<not> has_KHR_debug plain_world"
    by (simp add: has_KHR_debug_def plain_world_def)
  show ?thesis
    using a b
      enableES3DebugErrorLogging_frame [where w = debug_capable_world and env = nullptr
        and clazz = nullptr]
      enableES3DebugErrorLogging_frame [where w = plain_world and env = nullptr
        and clazz = nullptr]
    by (simp add: debug_capable_world_def plain_world_def)
qed

text \<open>
  C5. Two invocations of the entry point register the callback twice (the calls made are
  the two calls of one invocation, twice over), and the world after the second invocation
  is the world after the first: installing is idempotent. Whatever the slot held before,
  on a context with KHR\_debug it holds \<open>gl_debug_cb\<close> afterwards and debug output is
  enabled. Neither invocation raises an exception: the caller's pending exception is as it
  was.
\<close>

theorem enableES3DebugErrorLogging_twice:
  "calls_of (enable_ev env1 clazz1) @ calls_of (enable_ev env2 clazz2) =
     [glDebugMessageCallbackKHR (Some Fn_gl_debug_cb) nullptr, glEnable GL_DEBUG_OUTPUT_KHR,
      glDebugMessageCallbackKHR (Some Fn_gl_debug_cb) nullptr, glEnable GL_DEBUG_OUTPUT_KHR] \<and>
   step (enable_ev env2 clazz2) (step (enable_ev env1 clazz1) w) =
     step (enable_ev env1 clazz1) w \<and>
   (has_KHR_debug w \<longrightarrow>
      debug_callback_function (gl (step (enable_ev env2 clazz2) (step (enable_ev env1 clazz1) w)))
        = Some Fn_gl_debug_cb \<and>
      debug_callback_user_param (gl (step (enable_ev env2 clazz2) (step (enable_ev env1 clazz1) w)))
        = nullptr \<and>
      GL_DEBUG_OUTPUT_KHR \<in>
        enabled (gl (step (enable_ev env2 clazz2) (step (enable_ev env1 clazz1) w)))) \<and>
   pending_exception (step (enable_ev env2 clazz2) (step (enable_ev env1 clazz1) w)) =
     pending_exception w"
proof -
  have idem: "step (enable_ev env2 clazz2) (step (enable_ev env1 clazz1) w) =
     step (enable_ev env1 clazz1) w"
  proof (cases "has_KHR_debug w")
    case True
    then have "has_KHR_debug (step (enable_ev env1 clazz1) w)"
      by (simp add: step_has_KHR_debug)
    then show ?thesis
      using True by (simp add: step_enable_with_KHR_debug)
  next
    case False
    then have "\<not> has_KHR_debug (step (enable_ev env1 clazz1) w)"
      by (simp add: step_has_KHR_debug)
    then show ?thesis
      using False by (simp add: step_enable_without_KHR_debug GL_INVALID_ENUM_def GL_NO_ERROR_def)
  qed
  have slot: "has_KHR_debug w \<longrightarrow>
      debug_callback_function (gl (step (enable_ev env1 clazz1) w)) = Some Fn_gl_debug_cb \<and>
      debug_callback_user_param (gl (step (enable_ev env1 clazz1) w)) = nullptr \<and>
      GL_DEBUG_OUTPUT_KHR \<in> enabled (gl (step (enable_ev env1 clazz1) w))"
    by (simp add: step_enable_with_KHR_debug)
  have calls: "calls_of (enable_ev env1 clazz1) @ calls_of (enable_ev env2 clazz2) =
     [glDebugMessageCallbackKHR (Some Fn_gl_debug_cb) nullptr, glEnable GL_DEBUG_OUTPUT_KHR,
      glDebugMessageCallbackKHR (Some Fn_gl_debug_cb) nullptr, glEnable GL_DEBUG_OUTPUT_KHR]"
    by (simp add:
        Java_com_google_jetpackcamera_core_camera_effects_GLDebug_enableES3DebugErrorLogging_def)
  show ?thesis
    using slot calls by (simp add: idem step_enable_pending)
qed

theorem enableES3DebugErrorLogging_twice_witness:
  "step (enable_ev nullptr nullptr) (step (enable_ev nullptr nullptr)
     (debug_capable_world\<lparr>gl := (gl debug_capable_world)
        \<lparr>debug_callback_function := Some (Fn_foreign 0x7000)\<rparr>\<rparr>)) =
     \<lparr>gl = \<lparr>capabilities = {GL_DEBUG_OUTPUT_KHR}, enabled = {GL_DEBUG_OUTPUT_KHR},
            error_flag = GL_NO_ERROR, debug_callback_function = Some Fn_gl_debug_cb,
            debug_callback_user_param = nullptr, gl_other = ()\<rparr>,
      logcat = [], pending_exception = None\<rparr>"
proof -
  let ?w = "debug_capable_world\<lparr>gl := (gl debug_capable_world)
        \<lparr>debug_callback_function := Some (Fn_foreign 0x7000)\<rparr>\<rparr>"
  have a: "has_KHR_debug ?w"
    by (simp add: has_KHR_debug_def debug_capable_world_def)
  have "step (enable_ev nullptr nullptr) (step (enable_ev nullptr nullptr) ?w) =
      step (enable_ev nullptr nullptr) ?w"
    using enableES3DebugErrorLogging_twice [where w = ?w and ?env1.0 = nullptr
        and ?clazz1.0 = nullptr and ?env2.0 = nullptr and ?clazz2.0 = nullptr]
    by simp
  then show ?thesis
    by (simp add: step_enable_with_KHR_debug [OF a]) (simp add: debug_capable_world_def)
qed

text \<open>
  C6. The entry point has no error path. From every world it runs to completion, writes
  nothing to the log and leaves the pending exception of the caller as it was; it returns no
  status. On a context without KHR\_debug the registration is ignored: the slot and the
  enabled capabilities stay as they were. (The refusal of \<open>glEnable\<close> is recorded inside
  the GL context only; the program never reads the error flag.)
\<close>

theorem enableES3DebugErrorLogging_no_error_path:
  "logcat (step (enable_ev env clazz) w) = logcat w \<and>
   pending_exception (step (enable_ev env clazz) w) = pending_exception w \<and>
   (\<not> has_KHR_debug w \<longrightarrow>
      debug_callback_function (gl (step (enable_ev env clazz) w)) =
        debug_callback_function (gl w) \<and>
      debug_callback_user_param (gl (step (enable_ev env clazz) w)) =
        debug_callback_user_param (gl w) \<and>
      enabled (gl (step (enable_ev env clazz) w)) = enabled (gl w))"
  by (simp add: step_enable_logcat step_enable_pending step_enable_without_KHR_debug)

theorem enableES3DebugErrorLogging_no_error_path_witness:
  "logcat (step (enable_ev nullptr nullptr) plain_world) = [] \<and>
   pending_exception (step (enable_ev nullptr nullptr) plain_world) = None \<and>
   debug_callback_function (gl (step (enable_ev nullptr nullptr) plain_world)) = None \<and>
   enabled (gl (step (enable_ev nullptr nullptr) plain_world)) = {}"
proof -
  have b: "\<not> has_KHR_debug plain_world"
    by (simp add: has_KHR_debug_def plain_world_def)
  show ?thesis
    using b enableES3DebugErrorLogging_no_error_path [where w = plain_world and env = nullptr
        and clazz = nullptr]
    by (simp add: plain_world_def)
qed

section \<open>Histories\<close>

text \<open>
  C2 (scenario A). On a context with KHR\_debug, after the entry point has run, the driver
  delivers a message of type error with text "Shader compile failed": the log sink receives
  exactly one entry, at error priority, tagged "OpenGLDebugLib", whose text is "GL ERROR:",
  a newline, a space, the message and a full stop. The same holds from any world when the
  callback is invoked with that type and message after the entry point.
\<close>

theorem scenario_A:
  "(has_KHR_debug w \<longrightarrow> dm_type m = GL_DEBUG_TYPE_ERROR_KHR \<longrightarrow>
    dm_message m = ''Shader compile failed'' \<longrightarrow>
      logcat (run (driver_deliver m (step (enable_ev env clazz) w))
                 (step (enable_ev env clazz) w)) =
        logcat w @ [\<lparr>log_prio = ANDROID_LOG_ERROR, log_tag = ''OpenGLDebugLib'',
                     log_text = ''GL ERROR:\<newline> Shader compile failed.''\<rparr>]) \<and>
   logcat (step (Call_gl_debug_cb source GL_DEBUG_TYPE_ERROR_KHR id' severity length'
                   ''Shader compile failed'' userParam)
              (step (enable_ev env clazz) w)) =
     logcat w @ [\<lparr>log_prio = ANDROID_LOG_ERROR, log_tag = ''OpenGLDebugLib'',
                  log_text = ''GL ERROR:\<newline> Shader compile failed.''\<rparr>]"
proof -
  have msg: "c_str ''Shader compile failed'' = ''Shader compile failed''"
    by (simp add: c_str_def)
  have direct: "logcat (step (Call_gl_debug_cb source GL_DEBUG_TYPE_ERROR_KHR id' severity length'
                   ''Shader compile failed'' userParam)
              (step (enable_ev env clazz) w)) =
     logcat w @ [\<lparr>log_prio = ANDROID_LOG_ERROR, log_tag = ''OpenGLDebugLib'',
                  log_text = ''GL ERROR:\<newline> Shader compile failed.''\<rparr>]"
    by (simp add: step_gl_debug_cb step_enable_logcat msg)
  have delivered: "has_KHR_debug w \<longrightarrow> dm_type m = GL_DEBUG_TYPE_ERROR_KHR \<longrightarrow>
    dm_message m = ''Shader compile failed'' \<longrightarrow>
      logcat (run (driver_deliver m (step (enable_ev env clazz) w))
                 (step (enable_ev env clazz) w)) =
        logcat w @ [\<lparr>log_prio = ANDROID_LOG_ERROR, log_tag = ''OpenGLDebugLib'',
                     log_text = ''GL ERROR:\<newline> Shader compile failed.''\<rparr>]"
    by (simp add: step_enable_with_KHR_debug driver_deliver_def run_gl_debug_cb msg)
  from delivered direct show ?thesis by (rule conjI)
qed

theorem scenario_A_witness:
  "logcat (run (driver_deliver
       \<lparr>dm_source = 0x8246, dm_type = GL_DEBUG_TYPE_ERROR_KHR, dm_id = 1, dm_severity = 0x9146,
        dm_length = 21, dm_message = ''Shader compile failed''\<rparr>
       (step (enable_ev nullptr nullptr) debug_capable_world))
     (step (enable_ev nullptr nullptr) debug_capable_world)) =
   [\<lparr>log_prio = ANDROID_LOG_ERROR, log_tag = ''OpenGLDebugLib'',
     log_text = ''GL ERROR:\<newline> Shader compile failed.''\<rparr>]"
proof -
  have a: "has_KHR_debug debug_capable_world"
    by (simp add: has_KHR_debug_def debug_capable_world_def)
  have empty: "logcat debug_capable_world = []"
    by (simp add: debug_capable_world_def)
  show ?thesis
    using a empty scenario_A [where w = debug_capable_world and env = nullptr and clazz = nullptr
        and m = "\<lparr>dm_source = 0x8246, dm_type = GL_DEBUG_TYPE_ERROR_KHR, dm_id = 1,
          dm_severity = 0x9146, dm_length = 21, dm_message = ''Shader compile failed''\<rparr>"]
    by simp
qed

text \<open>
  C8. The program never uninstalls its callback. On a context with KHR\_debug, after the
  entry point has run, the slot holds \<open>gl_debug_cb\<close> at the end of every further history of
  entry-point and callback invocations; more generally a slot that holds \<open>gl_debug_cb\<close>
  keeps it, and an occupied slot is never emptied.
\<close>

theorem callback_stays_installed:
  "(has_KHR_debug w \<longrightarrow>
      debug_callback_function (gl (run_events es (step (enable_ev env clazz) w))) =
        Some Fn_gl_debug_cb) \<and>
   (debug_callback_function (gl w) = Some Fn_gl_debug_cb \<longrightarrow>
      debug_callback_function (gl (run_events es w)) = Some Fn_gl_debug_cb) \<and>
   (debug_callback_function (gl w) \<noteq> None \<longrightarrow>
      debug_callback_function (gl (run_events es w)) \<noteq> None)"
proof (intro conjI impI)
  assume "has_KHR_debug w"
  then have "debug_callback_function (gl (step (enable_ev env clazz) w)) = Some Fn_gl_debug_cb"
    by (simp add: step_enable_with_KHR_debug)
  then show "debug_callback_function (gl (run_events es (step (enable_ev env clazz) w))) =
      Some Fn_gl_debug_cb"
    by (rule run_events_keeps_gl_debug_cb)
next
  assume "debug_callback_function (gl w) = Some Fn_gl_debug_cb"
  then show "debug_callback_function (gl (run_events es w)) = Some Fn_gl_debug_cb"
    by (rule run_events_keeps_gl_debug_cb)
next
  assume "debug_callback_function (gl w) \<noteq> None"
  then show "debug_callback_function (gl (run_events es w)) \<noteq> None"
    by (rule run_events_keeps_slot_occupied)
qed

theorem callback_stays_installed_witness:
  "debug_callback_function (gl (run_events
      [Call_gl_debug_cb 0x8246 GL_DEBUG_TYPE_ERROR_KHR 1 0x9146 3 ''bad'' nullptr,
       enable_ev nullptr nullptr,
       Call_gl_debug_cb 0x8246 GL_DEBUG_TYPE_OTHER_KHR 2 0x9148 2 ''ok'' nullptr]
      (step (enable_ev nullptr nullptr) debug_capable_world))) = Some Fn_gl_debug_cb \<and>
   debug_callback_function (gl (run_events
      [enable_ev nullptr nullptr,
       Call_gl_debug_cb 0x8246 GL_DEBUG_TYPE_OTHER_KHR 2 0x9148 2 ''ok'' nullptr]
      (debug_capable_world\<lparr>gl := (gl debug_capable_world)
         \<lparr>debug_callback_function := Some Fn_gl_debug_cb\<rparr>\<rparr>))) = Some Fn_gl_debug_cb \<and>
   debug_callback_function (gl (run_events
      [enable_ev nullptr nullptr,
       Call_gl_debug_cb 0x8246 GL_DEBUG_TYPE_OTHER_KHR 2 0x9148 2 ''ok'' nullptr]
      (plain_world\<lparr>gl := (gl plain_world)
         \<lparr>debug_callback_function := Some (Fn_foreign 0x7000)\<rparr>\<rparr>))) \<noteq> None"
proof -
  have a: "has_KHR_debug debug_capable_world"
    by (simp add: has_KHR_debug_def debug_capable_world_def)
  have b: "debug_callback_function (gl (plain_world\<lparr>gl := (gl plain_world)
         \<lparr>debug_callback_function := Some (Fn_foreign 0x7000)\<rparr>\<rparr>)) \<noteq> None"
    by simp
  have c: "debug_callback_function (gl (debug_capable_world\<lparr>gl := (gl debug_capable_world)
         \<lparr>debug_callback_function := Some Fn_gl_debug_cb\<rparr>\<rparr>)) = Some Fn_gl_debug_cb"
    by simp
  show ?thesis
    using a b c
      callback_stays_installed [where w = debug_capable_world and env = nullptr
        and clazz = nullptr
        and es = "[Call_gl_debug_cb 0x8246 GL_DEBUG_TYPE_ERROR_KHR 1 0x9146 3 ''bad'' nullptr,
          enable_ev nullptr nullptr,
          Call_gl_debug_cb 0x8246 GL_DEBUG_TYPE_OTHER_KHR 2 0x9148 2 ''ok'' nullptr]"]
      callback_stays_installed [where w = "debug_capable_world\<lparr>gl := (gl debug_capable_world)
         \<lparr>debug_callback_function := Some Fn_gl_debug_cb\<rparr>\<rparr>"
        and es = "[enable_ev nullptr nullptr,
          Call_gl_debug_cb 0x8246 GL_DEBUG_TYPE_OTHER_KHR 2 0x9148 2 ''ok'' nullptr]"]
      callback_stays_installed [where w = "plain_world\<lparr>gl := (gl plain_world)
         \<lparr>debug_callback_function := Some (Fn_foreign 0x7000)\<rparr>\<rparr>"
        and es = "[enable_ev nullptr nullptr,
          Call_gl_debug_cb 0x8246 GL_DEBUG_TYPE_OTHER_KHR 2 0x9148 2 ''ok'' nullptr]"]
    by blast
qed

text \<open>
  C9. Over any history of entry-point and callback invocations, from any world, the log
  sink only grows, and every entry added is at error priority, tagged "OpenGLDebugLib", with
  the text "GL ERROR:", a newline, a space, the message string of an error-type callback
  invocation of the history, and a full stop.
\<close>

theorem every_log_entry_shape:
  "\<exists>new. logcat (run_events es w) = logcat w @ new \<and>
     (\<forall>e \<in> set new.
        log_prio e = ANDROID_LOG_ERROR \<and> log_tag e = ''OpenGLDebugLib'' \<and>
        (\<exists>source id' severity length' message userParam.
           Call_gl_debug_cb source GL_DEBUG_TYPE_ERROR_KHR id' severity length' message userParam
             \<in> set es \<and>
           log_text e = ''GL ERROR:\<newline> '' @ c_str message @ ''.''))"
proof (induction es arbitrary: w)
  case Nil
  show ?case by (simp add: run_events_Nil)
next
  case (Cons ev es)
  let ?shape = "\<lambda>evs e. log_prio e = ANDROID_LOG_ERROR \<and> log_tag e = ''OpenGLDebugLib'' \<and>
        (\<exists>source id' severity length' message userParam.
           Call_gl_debug_cb source GL_DEBUG_TYPE_ERROR_KHR id' severity length' message userParam
             \<in> set evs \<and>
           log_text e = ''GL ERROR:\<newline> '' @ c_str message @ ''.'')"
  obtain rest where rest: "logcat (run_events es (step ev w)) = logcat (step ev w) @ rest"
    and rest_shape: "\<forall>e \<in> set rest. ?shape es e"
    using Cons.IH [of "step ev w"] by blast
  have "\<exists>first. logcat (step ev w) = logcat w @ first \<and> (\<forall>e \<in> set first. ?shape (ev # es) e)"
  proof (cases ev)
    case (Call_enableES3DebugErrorLogging env clazz)
    then show ?thesis by (simp add: step_enable_logcat)
  next
    case (Call_gl_debug_cb source type id' severity length' message userParam)
    show ?thesis
    proof (cases "type = GL_DEBUG_TYPE_ERROR_KHR")
      case True
      let ?entry = "\<lparr>log_prio = ANDROID_LOG_ERROR, log_tag = ''OpenGLDebugLib'',
               log_text = ''GL ERROR:\<newline> '' @ c_str message @ ''.''\<rparr>"
      have "logcat (step ev w) = logcat w @ [?entry]"
        using True Call_gl_debug_cb by (simp add: step_gl_debug_cb)
      moreover have "Call_gl_debug_cb source GL_DEBUG_TYPE_ERROR_KHR id' severity length'
          message userParam \<in> set (ev # es)"
        using True Call_gl_debug_cb by simp
      then have "?shape (ev # es) ?entry"
        by - (simp only: log_entry.simps, intro conjI refl, rule exI [of _ source],
            rule exI [of _ id'], rule exI [of _ severity], rule exI [of _ length'],
            rule exI [of _ message], rule exI [of _ userParam], simp)
      ultimately show ?thesis by auto
    next
      case False
      then have "logcat (step ev w) = logcat w @ []"
        using Call_gl_debug_cb by (simp add: step_gl_debug_cb)
      then show ?thesis by (metis empty_iff empty_set)
    qed
  qed
  then obtain first where first: "logcat (step ev w) = logcat w @ first"
    and first_shape: "\<forall>e \<in> set first. ?shape (ev # es) e"
    by blast
  have "\<forall>e \<in> set rest. ?shape (ev # es) e"
    using rest_shape by (metis list.set_intros(2))
  with first_shape have "\<forall>e \<in> set (first @ rest). ?shape (ev # es) e"
    by auto
  moreover have "logcat (run_events (ev # es) w) = logcat w @ (first @ rest)"
    by (simp add: run_events_Cons rest first)
  ultimately show ?case by blast
qed

theorem every_log_entry_shape_witness:
  "logcat (run_events
      [enable_ev nullptr nullptr,
       Call_gl_debug_cb 0x8246 GL_DEBUG_TYPE_ERROR_KHR 1 0x9146 3 ''bad'' nullptr,
       Call_gl_debug_cb 0x8246 GL_DEBUG_TYPE_OTHER_KHR 2 0x9148 2 ''ok'' nullptr,
       Call_gl_debug_cb 0x8249 GL_DEBUG_TYPE_ERROR_KHR 3 0x9147 5 ''worse'' nullptr]
      debug_capable_world) =
     [\<lparr>log_prio = ANDROID_LOG_ERROR, log_tag = ''OpenGLDebugLib'',
       log_text = ''GL ERROR:\<newline> bad.''\<rparr>,
      \<lparr>log_prio = ANDROID_LOG_ERROR, log_tag = ''OpenGLDebugLib'',
       log_text = ''GL ERROR:\<newline> worse.''\<rparr>]"
proof -
  have ne: "GL_DEBUG_TYPE_OTHER_KHR \<noteq> GL_DEBUG_TYPE_ERROR_KHR"
    by (simp add: GL_DEBUG_TYPE_OTHER_KHR_def GL_DEBUG_TYPE_ERROR_KHR_def)
  have strs: "c_str ''bad'' = ''bad''" "c_str ''worse'' = ''worse''"
    by (simp_all add: c_str_def)
  have empty: "logcat debug_capable_world = []"
    by (simp add: debug_capable_world_def)
  show ?thesis
    using every_log_entry_shape [where w = debug_capable_world and es =
        "[enable_ev nullptr nullptr,
          Call_gl_debug_cb 0x8246 GL_DEBUG_TYPE_ERROR_KHR 1 0x9146 3 ''bad'' nullptr,
          Call_gl_debug_cb 0x8246 GL_DEBUG_TYPE_OTHER_KHR 2 0x9148 2 ''ok'' nullptr,
          Call_gl_debug_cb 0x8249 GL_DEBUG_TYPE_ERROR_KHR 3 0x9147 5 ''worse'' nullptr]"]
    by (simp add: run_events_Cons run_events_Nil step_gl_debug_cb step_enable_logcat
        ne strs empty)
qed

end
